theory Spec2Isabelle
  imports Main
begin

section \<open>Python values used by the caching layer\<close>

text \<open>
  The module \<^verbatim>\<open>obiKEGG/caching.py\<close> is Python 2 code (\<^verbatim>\<open>cPickle\<close>,
  \<^verbatim>\<open>UserDict\<close>, \<^verbatim>\<open>basestring\<close>). Exceptions are values of the type
  \<open>error\<close>; an operation that may raise returns \<open>error + 'a\<close>.
\<close>

datatype error =
    KeyError string
  | TypeError
  | AttributeError string
  | ValueError
  | OverflowError
  | NotImplementedError
  | OSError string
  | Exception string
  | Raised string

text \<open>
  \<^verbatim>\<open>datetime.date\<close> and its subclass \<^verbatim>\<open>datetime.datetime\<close> (naive, as
  \<^verbatim>\<open>datetime.now()\<close> returns it). Both are ordered field by field.
\<close>

record date =
  year :: int
  month :: int
  day :: int

record datetime = date +
  hour :: int
  minute :: int
  second :: int
  microsecond :: int

text \<open>The constructor call \<^verbatim>\<open>datetime(y, m, d, H, M, S)\<close>; the microsecond defaults to 0.\<close>

definition mk_datetime :: "int \<Rightarrow> int \<Rightarrow> int \<Rightarrow> int \<Rightarrow> int \<Rightarrow> int \<Rightarrow> datetime" where
  "mk_datetime y m d H M S =
     \<lparr>year = y, month = m, day = d, hour = H, minute = M, second = S, microsecond = 0\<rparr>"

fun lex_lt :: "int list \<Rightarrow> int list \<Rightarrow> bool" where
  "lex_lt (x # xs) (y # ys) = (if x = y then lex_lt xs ys else x < y)"
| "lex_lt [] (y # ys) = True"
| "lex_lt xs [] = False"

definition date_fields :: "date \<Rightarrow> int list" where
  "date_fields d = [year d, month d, day d]"

definition datetime_fields :: "datetime \<Rightarrow> int list" where
  "datetime_fields t =
     [year t, month t, day t, hour t, minute t, second t, microsecond t]"

definition datetime_lt :: "datetime \<Rightarrow> datetime \<Rightarrow> bool" where
  "datetime_lt a b = lex_lt (datetime_fields a) (datetime_fields b)"

definition datetime_le :: "datetime \<Rightarrow> datetime \<Rightarrow> bool" where
  "datetime_le a b = (if datetime_lt b a then False else True)"

definition date_le :: "date \<Rightarrow> date \<Rightarrow> bool" where
  "date_le a b = (if lex_lt (date_fields b) (date_fields a) then False else True)"

definition str_le :: "string \<Rightarrow> string \<Rightarrow> bool" where
  "str_le a b =
     (if lex_lt (map (\<lambda>c. int (of_char c)) b) (map (\<lambda>c. int (of_char c)) a)
      then False else True)"

text \<open>
  The values that reach \<^verbatim>\<open>is_entry_valid\<close> as \<^verbatim>\<open>entry.mtime\<close> or as a
  last-modified signal: \<^verbatim>\<open>None\<close>, a bare date, a datetime, or a string.
\<close>

datatype pyval = PNone | PDate date | PDatetime datetime | PStr string

text \<open>
  \<^verbatim>\<open>a <= b\<close> in Python 2. Dates and datetimes refuse to be ordered against
  any other type (and against each other) with \<^verbatim>\<open>TypeError\<close>; among the remaining
  values \<^verbatim>\<open>None\<close> is smaller than everything.
\<close>

fun py_le :: "pyval \<Rightarrow> pyval \<Rightarrow> error + bool" where
  "py_le (PDatetime a) (PDatetime b) = Inr (datetime_le a b)"
| "py_le (PDatetime a) _ = Inl TypeError"
| "py_le _ (PDatetime b) = Inl TypeError"
| "py_le (PDate a) (PDate b) = Inr (date_le a b)"
| "py_le (PDate a) _ = Inl TypeError"
| "py_le _ (PDate b) = Inl TypeError"
| "py_le (PStr a) (PStr b) = Inr (str_le a b)"
| "py_le PNone _ = Inr True"
| "py_le (PStr a) PNone = Inr False"

subsection \<open>Calendar arithmetic of the datetime module\<close>

definition is_leap :: "int \<Rightarrow> bool" where
  "is_leap y = (y mod 4 = 0 \<and> (if y mod 100 = 0 then y mod 400 = 0 else True))"

definition days_before_year :: "int \<Rightarrow> int" where
  "days_before_year y = (y - 1) * 365 + (y - 1) div 4 - (y - 1) div 100 + (y - 1) div 400"

definition days_in_month :: "int \<Rightarrow> int \<Rightarrow> int" where
  "days_in_month y m =
     (if m = 2 then (if is_leap y then 29 else 28)
      else if m = 4 \<or> m = 6 \<or> m = 9 \<or> m = 11 then 30 else 31)"

definition days_before_month :: "int \<Rightarrow> int \<Rightarrow> int" where
  "days_before_month y m = sum_list (map (days_in_month y) [1 .. m - 1])"

text \<open>\<^verbatim>\<open>date.toordinal()\<close>: 1 for 0001-01-01.\<close>

definition toordinal :: "int \<Rightarrow> int \<Rightarrow> int \<Rightarrow> int" where
  "toordinal y m d = days_before_year y + days_before_month y m + d"

text \<open>
  The inverse, for an ordinal \<open>n \<ge> 1\<close>: the year by 400-, 100-, 4- and 1-year cycles,
  then the month by walking the months of that year.
\<close>

fun month_of_offset :: "int \<Rightarrow> int \<Rightarrow> nat \<Rightarrow> int \<Rightarrow> int \<times> int" where
  "month_of_offset y m 0 n = (m, n + 1)"
| "month_of_offset y m (Suc k) n =
     (if n < days_in_month y m then (m, n + 1)
      else month_of_offset y (m + 1) k (n - days_in_month y m))"

definition fromordinal :: "int \<Rightarrow> int \<times> int \<times> int" where
  "fromordinal ord =
     (let n = ord - 1;
          n400 = n div 146097; r400 = n mod 146097;
          n100 = r400 div 36524; r100 = r400 mod 36524;
          n4 = r100 div 1461; r4 = r100 mod 1461;
          n1 = r4 div 365; r1 = r4 mod 365;
          y = n400 * 400 + 1 + n100 * 100 + n4 * 4 + n1
      in if n1 = 4 \<or> n100 = 4 then (y - 1, 12, 31)
         else (case month_of_offset y 1 11 r1 of (m, d) \<Rightarrow> (y, m, d)))"

text \<open>\<^verbatim>\<open>t - timedelta(days)\<close>; a result before year 1 raises \<^verbatim>\<open>OverflowError\<close>.\<close>

definition minus_days :: "datetime \<Rightarrow> int \<Rightarrow> error + datetime" where
  "minus_days t n =
     (let ord = toordinal (year t) (month t) (day t) - n
      in if ord < 1 \<or> 3652059 < ord then Inl OverflowError
         else (case fromordinal ord of
                 (y, m, d) \<Rightarrow> Inr (t\<lparr>year := y, month := m, day := d\<rparr>)))"

text \<open>Decimal digits, zero-padded to a width, for \<^verbatim>\<open>strftime\<close>.\<close>

fun digits :: "nat \<Rightarrow> nat \<Rightarrow> string" where
  "digits 0 n = []"
| "digits (Suc k) n = digits k (n div 10) @ [char_of (48 + n mod 10)]"

text \<open>
  \<^verbatim>\<open>t.strftime("%Y %m %d %H %M %S")\<close>; Python 2 refuses years before 1900 with
  \<^verbatim>\<open>ValueError\<close>.
\<close>

definition strftime :: "datetime \<Rightarrow> error + string" where
  "strftime t =
     (if year t < 1900 then Inl ValueError
      else Inr (digits 4 (nat (year t)) @ '' '' @ digits 2 (nat (month t)) @ '' '' @
                digits 2 (nat (day t)) @ '' '' @ digits 2 (nat (hour t)) @ '' '' @
                digits 2 (nat (minute t)) @ '' '' @ digits 2 (nat (second t))))"


section \<open>Cache entries and storage backends\<close>

text \<open>
  \<^verbatim>\<open>cache_entry(value, mtime=None, expires=None)\<close>. The payload type \<open>'v\<close> is whatever
  the wrapped operation returns.
\<close>

record 'v cache_entry =
  e_value :: 'v
  e_mtime :: pyval
  e_expires :: pyval

text \<open>
  The \<^verbatim>\<open>pickle\<close> module is a library, so it is a parameter: \<open>dumps\<close> is
  \<^verbatim>\<open>pickle.dumps\<close> (the text that goes into the \<^verbatim>\<open>value TEXT\<close> column), \<open>loads\<close>
  is \<^verbatim>\<open>pickle.loads(str(...))\<close> applied to the fetched column.
\<close>

record ('v, 'p) pickle =
  dumps :: "'v cache_entry \<Rightarrow> error + 'p"
  loads :: "'p \<Rightarrow> error + 'v cache_entry"

text \<open>
  The two concrete stores. A \<^verbatim>\<open>Sqlite3Store\<close> is the table
  \<^verbatim>\<open>cache(key TEXT UNIQUE, value TEXT)\<close> of its file, as the list of its rows. A
  \<^verbatim>\<open>DictStore\<close> has the single attribute \<^verbatim>\<open>timestamp\<close> that
  \<^verbatim>\<open>Store.__init__\<close> sets.
\<close>

datatype 'p store = Sqlite3Store "(string \<times> 'p) list" | DictStore int

definition new_DictStore :: "'p store" where
  "new_DictStore = DictStore 0"

text \<open>
  \<^verbatim>\<open>store[key]\<close>. \<^verbatim>\<open>Sqlite3Store.__getitem__\<close> selects the values of the rows with
  that key and unpickles the first. \<^verbatim>\<open>DictStore\<close> defines only \<^verbatim>\<open>__init__\<close> and
  \<^verbatim>\<open>close\<close>; neither \<^verbatim>\<open>Store\<close> nor \<^verbatim>\<open>UserDict.DictMixin\<close> supplies
  \<^verbatim>\<open>__getitem__\<close>, \<^verbatim>\<open>__setitem__\<close>, \<^verbatim>\<open>__delitem__\<close> or \<^verbatim>\<open>keys\<close>, so
  subscripting raises \<^verbatim>\<open>TypeError\<close> and \<^verbatim>\<open>keys()\<close> raises \<^verbatim>\<open>AttributeError\<close>.
\<close>

fun store_getitem :: "('v, 'p) pickle \<Rightarrow> 'p store \<Rightarrow> string \<Rightarrow> error + 'v cache_entry" where
  "store_getitem pk (Sqlite3Store rows) key =
     (case map snd (filter (\<lambda>row. fst row = key) rows) of
        [] \<Rightarrow> Inl (KeyError key)
      | v # r \<Rightarrow> loads pk v)"
| "store_getitem pk (DictStore ts) key = Inl TypeError"

text \<open>
  \<^verbatim>\<open>store[key] = value\<close>. \<^verbatim>\<open>INSERT OR REPLACE\<close> removes the rows that conflict on the
  unique key and adds the new row.
\<close>

fun store_setitem :: "('v, 'p) pickle \<Rightarrow> 'p store \<Rightarrow> string \<Rightarrow> 'v cache_entry \<Rightarrow> error + 'p store" where
  "store_setitem pk (Sqlite3Store rows) key entry =
     (case dumps pk entry of
        Inl e \<Rightarrow> Inl e
      | Inr v \<Rightarrow> Inr (Sqlite3Store (filter (\<lambda>row. fst row \<noteq> key) rows @ [(key, v)])))"
| "store_setitem pk (DictStore ts) key entry = Inl TypeError"

text \<open>\<^verbatim>\<open>del store[key]\<close>: \<^verbatim>\<open>DELETE FROM cache WHERE key=?\<close>.\<close>

fun store_delitem :: "'p store \<Rightarrow> string \<Rightarrow> error + 'p store" where
  "store_delitem (Sqlite3Store rows) key =
     Inr (Sqlite3Store (filter (\<lambda>row. fst row \<noteq> key) rows))"
| "store_delitem (DictStore ts) key = Inl TypeError"

text \<open>\<^verbatim>\<open>store.keys()\<close>: \<^verbatim>\<open>SELECT key FROM cache\<close>.\<close>

fun store_keys :: "'p store \<Rightarrow> error + string list" where
  "store_keys (Sqlite3Store rows) = Inr (map fst rows)"
| "store_keys (DictStore ts) = Inl (AttributeError ''keys'')"

text \<open>
  \<^verbatim>\<open>key in store\<close> is \<^verbatim>\<open>DictMixin.__contains__\<close>, that is \<^verbatim>\<open>has_key\<close>: it evaluates
  \<^verbatim>\<open>self[key]\<close>, answers \<^verbatim>\<open>False\<close> on \<^verbatim>\<open>KeyError\<close> and lets any other exception
  through.
\<close>

definition store_contains :: "('v, 'p) pickle \<Rightarrow> 'p store \<Rightarrow> string \<Rightarrow> error + bool" where
  "store_contains pk st key =
     (case store_getitem pk st key of
        Inl (KeyError k) \<Rightarrow> Inr False
      | Inl e \<Rightarrow> Inl e
      | Inr entry \<Rightarrow> Inr True)"

section \<open>Host objects and the cached-call wrapper\<close>

text \<open>
  A host instance is its attribute dictionary. An attribute is a store object, a
  callable returning a store (the \<^verbatim>\<open>cache_store\<close> method of a host), or a method
  taking the argument tuple (\<^verbatim>\<open>last_modified\<close>).
\<close>

datatype ('a, 'p) attr =
    StoreObject "'p store"
  | StoreFactory "'p store"
  | Method "'a list \<Rightarrow> error + pyval"

type_synonym ('a, 'p) host = "string \<rightharpoonup> ('a, 'p) attr"

text \<open>
  The configuration and clock that \<^verbatim>\<open>is_entry_valid\<close> reads:
  \<^verbatim>\<open>conf.params["cache.invalidate"]\<close> (the module \<^verbatim>\<open>conf\<close> is not part of the
  sources at hand, so the setting is a parameter), the module constant
  \<^verbatim>\<open>_SESSION_START\<close>, \<^verbatim>\<open>datetime.fromtimestamp(0)\<close> and \<^verbatim>\<open>datetime.now()\<close>.
\<close>

record env =
  cache_invalidate :: string
  SESSION_START :: datetime
  epoch :: datetime
  now :: datetime

text \<open>
  \<^verbatim>\<open>cached_wrapper\<close>: the wrapped function with its \<^verbatim>\<open>__name__\<close>, the bound
  instance, and \<^verbatim>\<open>repr\<close> on the elements of the argument tuple.
\<close>

record ('a, 'v, 'p) cached_wrapper =
  w_name :: string
  w_function :: "('a, 'p) host option \<Rightarrow> 'a list \<Rightarrow> error + 'v"
  w_instance :: "('a, 'p) host option"
  w_repr :: "'a \<Rightarrow> string"

text \<open>\<^verbatim>\<open>repr\<close> of a tuple: \<^verbatim>\<open>()\<close>, \<^verbatim>\<open>(x,)\<close>, \<^verbatim>\<open>(x, y, ...)\<close>.\<close>

fun join_comma :: "string list \<Rightarrow> string" where
  "join_comma [] = []"
| "join_comma [s] = s"
| "join_comma (s # ss) = s @ '', '' @ join_comma ss"

definition repr_tuple :: "('a \<Rightarrow> string) \<Rightarrow> 'a list \<Rightarrow> string" where
  "repr_tuple r args =
     (case args of
        [] \<Rightarrow> ''()''
      | [x] \<Rightarrow> ''('' @ r x @ '',)''
      | _ \<Rightarrow> ''('' @ join_comma (map r args) @ '')'')"

definition key_from_args :: "('a, 'v, 'p) cached_wrapper \<Rightarrow> 'a list \<Rightarrow> string" where
  "key_from_args w args = w_name w @ repr_tuple (w_repr w) args"

text \<open>
  \<^verbatim>\<open>last_modified_from_args\<close> calls \<^verbatim>\<open>self.instance.last_modified(args)\<close> when
  there is an instance and has no \<^verbatim>\<open>return\<close> statement: whatever the host answers,
  the result is \<^verbatim>\<open>None\<close>.
\<close>

definition last_modified_from_args :: "('a, 'v, 'p) cached_wrapper \<Rightarrow> 'a list \<Rightarrow> error + pyval" where
  "last_modified_from_args w args =
     (case w_instance w of
        None \<Rightarrow> Inr PNone
      | Some inst \<Rightarrow>
          (case inst ''last_modified'' of
             None \<Rightarrow> Inl (AttributeError ''last_modified'')
           | Some (Method f) \<Rightarrow> (case f args of Inl e \<Rightarrow> Inl e | Inr r \<Rightarrow> Inr PNone)
           | Some other \<Rightarrow> Inl TypeError))"

definition min_timestamp :: "env \<Rightarrow> 'a list \<Rightarrow> datetime" where
  "min_timestamp env args = epoch env"

text \<open>Lines 173--179: the entry's \<^verbatim>\<open>mtime\<close> as a datetime, \<open>None\<close> for the early \<^verbatim>\<open>return False\<close>.\<close>

fun entry_mtime :: "pyval \<Rightarrow> datetime option" where
  "entry_mtime (PDatetime t) = Some t"
| "entry_mtime (PDate d) = Some (mk_datetime (year d) (month d) (day d) 1 1 1)"
| "entry_mtime other = None"

text \<open>
  Lines 186--205: the branches on the type of \<^verbatim>\<open>last_modified\<close> and the final
  \<^verbatim>\<open>return last_modified <= mtime\<close>. \<^verbatim>\<open>isinstance(last_modified, date)\<close> holds for a
  datetime too.
\<close>

fun resolve_threshold :: "env \<Rightarrow> pyval \<Rightarrow> datetime \<Rightarrow> error + bool" where
  "resolve_threshold env (PDate d) mtime =
     py_le (PDatetime (mk_datetime (year d) (month d) (day d) 1 1 1)) (PDatetime mtime)"
| "resolve_threshold env (PDatetime t) mtime =
     py_le (PDatetime (mk_datetime (year t) (month t) (day t) 1 1 1)) (PDatetime mtime)"
| "resolve_threshold env (PStr s) mtime =
     (case strftime mtime of
        Inl e \<Rightarrow> Inl e
      | Inr m \<Rightarrow> py_le (PStr s) (PStr m))"
| "resolve_threshold env PNone mtime =
     (if cache_invalidate env = ''always'' then Inr False
      else if cache_invalidate env = ''session'' then
        py_le (PDatetime (SESSION_START env)) (PDatetime mtime)
      else if cache_invalidate env = ''daily'' then
        py_le (PDatetime ((now env)\<lparr>hour := 0, minute := 0, second := 0, microsecond := 0\<rparr>))
              (PDatetime mtime)
      else if cache_invalidate env = ''weekly'' then
        (case minus_days (now env) 7 of
           Inl e \<Rightarrow> Inl e
         | Inr t \<Rightarrow> py_le (PDatetime t) (PDatetime mtime))
      else py_le PNone (PDatetime mtime))"

definition is_entry_valid ::
  "env \<Rightarrow> ('a, 'v, 'p) cached_wrapper \<Rightarrow> 'v cache_entry \<Rightarrow> 'a list \<Rightarrow> error + bool" where
  "is_entry_valid env w entry args =
     (case entry_mtime (e_mtime entry) of
        None \<Rightarrow> Inr False
      | Some mtime \<Rightarrow>
          if datetime_lt mtime (min_timestamp env args) then Inr False
          else (case last_modified_from_args w args of
                  Inl e \<Rightarrow> Inl e
                | Inr last_modified \<Rightarrow> resolve_threshold env last_modified mtime))"


subsection \<open>Invalidation\<close>

definition invalidate_key :: "'p store \<Rightarrow> string \<Rightarrow> error + 'p store" where
  "invalidate_key st key = store_delitem st key"

definition invalidate_args :: "('a, 'v, 'p) cached_wrapper \<Rightarrow> 'p store \<Rightarrow> 'a list \<Rightarrow> error + 'p store" where
  "invalidate_args w st args = invalidate_key st (key_from_args w args)"





subsection \<open>Storing and calling\<close>

definition memoize ::
  "('v, 'p) pickle \<Rightarrow> datetime \<Rightarrow> ('a, 'v, 'p) cached_wrapper \<Rightarrow> 'p store \<Rightarrow> 'a list \<Rightarrow> 'v \<Rightarrow>
   datetime option \<Rightarrow> error + 'p store" where
  "memoize pk clock w st args v timestamp =
     (let key = key_from_args w args;
          ts = (case timestamp of None \<Rightarrow> clock | Some t \<Rightarrow> t)
      in store_setitem pk st key \<lparr>e_value = v, e_mtime = PDatetime ts, e_expires = PNone\<rparr>)"

text \<open>
  What a call through the wrapper does to the outside: invocations of the wrapped
  operation and writes to the backend, in order.
\<close>

datatype ('a, 'v) event = Invoke "'a list" | Write string "'v cache_entry"

text \<open>
  Lines 162--163: the wrapped operation is called with the instance and the arguments,
  and its result is stored under the key with \<^verbatim>\<open>datetime.now()\<close> (here \<open>stamp\<close>, the
  clock read at that moment). The result of a call is the returned value or the
  exception, the backend afterwards, and the events.
\<close>

definition recompute ::
  "('v, 'p) pickle \<Rightarrow> datetime \<Rightarrow> ('a, 'v, 'p) cached_wrapper \<Rightarrow> 'p store \<Rightarrow> string \<Rightarrow> 'a list \<Rightarrow>
   (error + 'v) \<times> 'p store \<times> ('a, 'v) event list" where
  "recompute pk stamp w st key args =
     (case w_function w (w_instance w) args of
        Inl e \<Rightarrow> (Inl e, st, [Invoke args])
      | Inr rval \<Rightarrow>
          (case store_setitem pk st key \<lparr>e_value = rval, e_mtime = PDatetime stamp, e_expires = PNone\<rparr> of
             Inl e \<Rightarrow> (Inl e, st, [Invoke args])
           | Inr st' \<Rightarrow>
               (Inr rval, st',
                [Invoke args,
                 Write key \<lparr>e_value = rval, e_mtime = PDatetime stamp, e_expires = PNone\<rparr>])))"

text \<open>
  \<^verbatim>\<open>cached_wrapper.__call__\<close>. The store \<open>st\<close> is the one \<^verbatim>\<open>self.cache_store()\<close>
  opens; \<^verbatim>\<open>closing\<close> calls its \<^verbatim>\<open>close\<close>, which does nothing.
\<close>

definition call ::
  "('v, 'p) pickle \<Rightarrow> env \<Rightarrow> datetime \<Rightarrow> ('a, 'v, 'p) cached_wrapper \<Rightarrow> 'p store \<Rightarrow> 'a list \<Rightarrow>
   (error + 'v) \<times> 'p store \<times> ('a, 'v) event list" where
  "call pk env stamp w st args =
     (let key = key_from_args w args
      in case store_contains pk st key of
           Inl e \<Rightarrow> (Inl e, st, [])
         | Inr False \<Rightarrow> recompute pk stamp w st key args
         | Inr True \<Rightarrow>
             (case store_getitem pk st key of
                Inl e \<Rightarrow> (Inl e, st, [])
              | Inr entry \<Rightarrow>
                  (case is_entry_valid env w entry args of
                     Inl e \<Rightarrow> (Inl e, st, [])
                   | Inr True \<Rightarrow> (Inr (e_value entry), st, [])
                   | Inr False \<Rightarrow> recompute pk stamp w st key args)))"

section \<open>Cache-scope binding\<close>

text \<open>
  The builtin \<^verbatim>\<open>hasattr\<close> applied to its actual arguments: it takes exactly two, an
  object and an attribute name, and raises \<^verbatim>\<open>TypeError\<close> otherwise.
\<close>

datatype ('a, 'p) pyarg = Obj "('a, 'p) host" | Str string

fun hasattr :: "('a, 'p) pyarg list \<Rightarrow> error + bool" where
  "hasattr [Obj h, Str name] = Inr (case h name of None \<Rightarrow> False | Some a \<Rightarrow> True)"
| "hasattr args = Inl TypeError"

definition getattr :: "('a, 'p) host \<Rightarrow> string \<Rightarrow> error + ('a, 'p) attr" where
  "getattr h name = (case h name of None \<Rightarrow> Inl (AttributeError name) | Some a \<Rightarrow> Inr a)"

text \<open>
  \<^verbatim>\<open>cached_method.get_cache_store(instance, owner)\<close>: the attribute returned and the
  instance afterwards. The second test is written \<^verbatim>\<open>hasattr("_cached_method_cache")\<close>,
  with the attribute name as the only argument.
\<close>

definition get_cache_store :: "('a, 'p) host \<Rightarrow> error + (('a, 'p) attr \<times> ('a, 'p) host)" where
  "get_cache_store inst =
     (case hasattr [Obj inst, Str ''cache_store''] of
        Inl e \<Rightarrow> Inl e
      | Inr True \<Rightarrow>
          (case getattr inst ''cache_store'' of Inl e \<Rightarrow> Inl e | Inr a \<Rightarrow> Inr (a, inst))
      | Inr False \<Rightarrow>
          (case hasattr [Str ''_cached_method_cache'' :: ('a, 'p) pyarg] of
             Inl e \<Rightarrow> Inl e
           | Inr present \<Rightarrow>
               (let inst' = (if present then inst
                             else inst(''_cached_method_cache'' \<mapsto> StoreObject new_DictStore))
                in case getattr inst' ''_cached_method_cache'' of
                     Inl e \<Rightarrow> Inl e
                   | Inr a \<Rightarrow> Inr (a, inst'))))"

section \<open>Clearing the cache directory\<close>

text \<open>
  \<^verbatim>\<open>clear_cache\<close> reads \<^verbatim>\<open>conf.params["cache.path"]\<close> and \<^verbatim>\<open>conf.kegg_dir\<close> (both
  parameters here) and the file system: \<^verbatim>\<open>os.path.realpath\<close> and the entries of the
  directory that the path names, each a name and whether it is a directory.
  \<^verbatim>\<open>glob\<close> with the pattern \<^verbatim>\<open>*.ext\<close> yields the names that end in \<^verbatim>\<open>.ext\<close> and do
  not begin with a dot; \<^verbatim>\<open>os.remove\<close> deletes a file and raises \<^verbatim>\<open>OSError\<close> on a
  directory. The exception of the guard carries the configured path, which its message
  quotes (\<^verbatim>\<open>Non default cache path. Please remove the contents of ... manually.\<close>).
\<close>

type_synonym listing = "(string \<times> bool) list"

definition endswith :: "string \<Rightarrow> string \<Rightarrow> bool" where
  "endswith s suffix =
     (length suffix \<le> length s \<and> drop (length s - length suffix) s = suffix)"

definition glob_star :: "listing \<Rightarrow> string \<Rightarrow> string list" where
  "glob_star entries suffix =
     filter (\<lambda>name. endswith name suffix \<and> take 1 name \<noteq> ''.'') (map fst entries)"

fun remove_each :: "string list \<Rightarrow> listing \<Rightarrow> (error + unit) \<times> listing" where
  "remove_each [] entries = (Inr (), entries)"
| "remove_each (name # names) entries =
     (if (name, True) \<in> set entries then (Inl (OSError name), entries)
      else remove_each names (filter (\<lambda>entry. fst entry \<noteq> name) entries))"

definition remove_glob :: "string \<Rightarrow> (error + unit) \<times> listing \<Rightarrow> (error + unit) \<times> listing" where
  "remove_glob suffix r =
     (case r of
        (Inl e, entries) \<Rightarrow> (Inl e, entries)
      | (Inr u, entries) \<Rightarrow> remove_each (glob_star entries suffix) entries)"

definition clear_cache ::
  "(string \<Rightarrow> string) \<Rightarrow> string \<Rightarrow> string \<Rightarrow> listing \<Rightarrow> (error + unit) \<times> listing" where
  "clear_cache realpath path kegg_dir entries =
     (if realpath path \<noteq> realpath kegg_dir then
        (Inl (Exception path), entries)
      else remove_glob ''.png'' (remove_glob ''.xml'' (remove_glob ''.keg''
             (remove_glob ''.sqlite3'' (Inr (), entries)))))"


section \<open>Concrete inputs\<close>

text \<open>
  A configuration with the session starting on 2020-01-02 at 00:30, two wrapped
  operations \<open>f\<close> and \<open>g\<close> on single-digit integer arguments, a host whose
  \<^verbatim>\<open>last_modified\<close> answers the date 2020-01-05, and a serializer that stores the
  entry as it is.
\<close>

definition sample_env :: "string \<Rightarrow> env" where
  "sample_env policy =
     \<lparr>cache_invalidate = policy,
      SESSION_START = mk_datetime 2020 1 2 0 30 0,
      epoch = mk_datetime 1970 1 1 1 0 0,
      now = mk_datetime 2020 1 12 12 0 0\<rparr>"

definition identity_pickle :: "(int, int cache_entry) pickle" where
  "identity_pickle = \<lparr>dumps = Inr, loads = Inr\<rparr>"

definition wrapper_f :: "(int, int, int cache_entry) cached_wrapper" where
  "wrapper_f =
     \<lparr>w_name = ''f'', w_function = (\<lambda>inst args. Inr (sum_list args)), w_instance = None,
      w_repr = (\<lambda>i. digits 1 (nat i))\<rparr>"


definition wrapper_failing :: "(int, int, int cache_entry) cached_wrapper" where
  "wrapper_failing =
     \<lparr>w_name = ''f'', w_function = (\<lambda>inst args. Inl (Raised ''IOError'')), w_instance = None,
      w_repr = (\<lambda>i. digits 1 (nat i))\<rparr>"



definition host_with_signal :: "(int, int cache_entry) host" where
  "host_with_signal =
     [''last_modified'' \<mapsto> Method (\<lambda>args. Inr (PDate \<lparr>year = 2020, month = 1, day = 5\<rparr>))]"

definition sample_entry :: "pyval \<Rightarrow> int cache_entry" where
  "sample_entry t = \<lparr>e_value = 7, e_mtime = t, e_expires = PNone\<rparr>"

definition sample_listing :: listing where
  "sample_listing = [(''kegg_api_cache_1.sqlite3'', False), (''ko00001.keg'', False), (''notes.txt'', False)]"

section \<open>Auxiliary facts\<close>

lemmas eval_defs =
  is_entry_valid_def sample_env_def wrapper_f_def sample_entry_def mk_datetime_def
  last_modified_from_args_def min_timestamp_def datetime_lt_def datetime_le_def
  datetime_fields_def

lemma last_modified_from_args_None:
  "last_modified_from_args w args = Inr r \<Longrightarrow> r = PNone"
  by (auto simp add: last_modified_from_args_def split: option.splits attr.splits sum.splits)

lemma contains_of_getitem:
  "store_getitem pk st key = Inr entry \<Longrightarrow> store_contains pk st key = Inr True"
  by (simp add: store_contains_def)












section \<open>The invalidation policy\<close>

text \<open>
  C1. A host that exposes a last-modified signal should have it compared with the
  entry's creation time, before the policy setting is looked at. The code calls the
  host and drops the answer: with the host answering the date 2020-01-05, an entry
  created on 2020-01-10 and the setting \<^verbatim>\<open>always\<close>, the entry is rejected by the
  policy branch, although the comparison with the normalized signal accepts it.
\<close>

theorem last_modified_signal_discarded:
  "host_with_signal ''last_modified'' =
     Some (Method (\<lambda>args. Inr (PDate \<lparr>year = 2020, month = 1, day = 5\<rparr>))) \<and>
   last_modified_from_args (wrapper_f\<lparr>w_instance := Some host_with_signal\<rparr>) [1] = Inr PNone \<and>
   is_entry_valid (sample_env ''always'') (wrapper_f\<lparr>w_instance := Some host_with_signal\<rparr>)
     (sample_entry (PDatetime (mk_datetime 2020 1 10 0 0 0))) [1] = Inr False \<and>
   resolve_threshold (sample_env ''always'') (PDate \<lparr>year = 2020, month = 1, day = 5\<rparr>)
     (mk_datetime 2020 1 10 0 0 0) = Inr True"
  by (simp add: eval_defs host_with_signal_def)

text \<open>
  C2, as stated: a bare-date creation time becomes 00:00:01 of that day. It does not:
  for the date 2020-01-02 the normalized time is not 00:00:01, and under the
  \<^verbatim>\<open>session\<close> setting with the session starting at 00:30 the entry is accepted,
  which 00:00:01 would not be.
\<close>

theorem bare_date_one_second_counterexample:
  "entry_mtime (PDate \<lparr>year = 2020, month = 1, day = 2\<rparr>) \<noteq> Some (mk_datetime 2020 1 2 0 0 1) \<and>
   is_entry_valid (sample_env ''session'') wrapper_f
     (sample_entry (PDate \<lparr>year = 2020, month = 1, day = 2\<rparr>)) [1] = Inr True \<and>
   datetime_le (SESSION_START (sample_env ''session'')) (mk_datetime 2020 1 2 0 0 1) = False"
  by (simp add: eval_defs)

text \<open>
  C2, amended: a bare-date creation time becomes 01:01:01 of that day (hour 1,
  minute 1, second 1), and the entry is then judged exactly as an entry created at
  that datetime.
\<close>

theorem bare_date_normalized_010101:
  "entry_mtime (PDate d) = Some (mk_datetime (year d) (month d) (day d) 1 1 1) \<and>
   is_entry_valid env w \<lparr>e_value = v, e_mtime = PDate d, e_expires = x\<rparr> args =
   is_entry_valid env w
     \<lparr>e_value = v, e_mtime = PDatetime (mk_datetime (year d) (month d) (day d) 1 1 1),
      e_expires = x\<rparr> args"
  by (simp add: is_entry_valid_def)

text \<open>
  C6. An entry with a recognized creation time, not below the floor, no last-modified
  signal, and a policy setting other than \<^verbatim>\<open>always\<close>, \<^verbatim>\<open>session\<close>, \<^verbatim>\<open>daily\<close>,
  \<^verbatim>\<open>weekly\<close> should be accepted without a comparison. The code falls through to
  \<^verbatim>\<open>return last_modified <= mtime\<close> with \<^verbatim>\<open>last_modified\<close> still \<^verbatim>\<open>None\<close>, and
  comparing \<^verbatim>\<open>None\<close> with a datetime raises \<^verbatim>\<open>TypeError\<close>.
\<close>

theorem unrecognized_policy_raises:
  assumes "entry_mtime (e_mtime entry) = Some mtime"
    and "datetime_lt mtime (min_timestamp env args) = False"
    and "last_modified_from_args w args = Inr lm"
    and "cache_invalidate env \<notin> {''always'', ''session'', ''daily'', ''weekly''}"
  shows "is_entry_valid env w entry args = Inl TypeError"
proof -
  from assms(3) have "lm = PNone" by (rule last_modified_from_args_None)
  with assms show ?thesis by (simp add: is_entry_valid_def)
qed

theorem unrecognized_policy_raises_witness:
  "is_entry_valid (sample_env ''never'') wrapper_f
     (sample_entry (PDatetime (mk_datetime 2020 1 10 0 0 0))) [1] = Inl TypeError"
proof -
  have a: "entry_mtime (e_mtime (sample_entry (PDatetime (mk_datetime 2020 1 10 0 0 0)))) =
           Some (mk_datetime 2020 1 10 0 0 0)"
    by (simp add: sample_entry_def)
  have b: "datetime_lt (mk_datetime 2020 1 10 0 0 0) (min_timestamp (sample_env ''never'') [1::int]) = False"
    by (simp add: eval_defs)
  have c: "last_modified_from_args wrapper_f [1] = Inr PNone"
    by (simp add: eval_defs)
  have d: "cache_invalidate (sample_env ''never'') \<notin> {''always'', ''session'', ''daily'', ''weekly''}"
    by (simp add: sample_env_def)
  show ?thesis by (rule unrecognized_policy_raises [OF a b c d])
qed

section \<open>The storage backends\<close>

text \<open>
  C4. The volatile backend should offer the key-value interface of the persistent
  one. \<^verbatim>\<open>DictStore\<close> defines none of its operations: storing, reading, testing,
  deleting and listing keys all raise, for every key and entry.
\<close>

theorem DictStore_operations_raise:
  "store_setitem pk (DictStore ts) key entry = Inl TypeError \<and>
   store_getitem pk (DictStore ts) key = Inl TypeError \<and>
   store_contains pk (DictStore ts) key = Inl TypeError \<and>
   store_delitem (DictStore ts :: 'p store) key = Inl TypeError \<and>
   store_keys (DictStore ts :: 'p store) = Inl (AttributeError ''keys'')"
  by (simp add: store_contains_def)

section \<open>The cache-scope binding\<close>

text \<open>
  C3. For a host without a \<^verbatim>\<open>cache_store\<close> attribute, resolving the backend should
  create a private volatile backend and attach it. The code reaches
  \<^verbatim>\<open>hasattr("_cached_method_cache")\<close>, a call with one argument, and raises
  \<^verbatim>\<open>TypeError\<close> for every such host.
\<close>

theorem get_cache_store_raises:
  "inst ''cache_store'' = None \<Longrightarrow> get_cache_store inst = Inl TypeError"
  by (simp add: get_cache_store_def)

theorem get_cache_store_raises_witness:
  "get_cache_store host_with_signal = Inl TypeError"
proof -
  have "host_with_signal ''cache_store'' = None"
    by (simp add: host_with_signal_def)
  then show ?thesis by (rule get_cache_store_raises)
qed


section \<open>Calls through the wrapper\<close>

text \<open>
  C5. A call that finds no entry under its key, or an entry the policy rejects, invokes
  the wrapped operation once and writes one entry, stamped with the clock reading,
  and returns the fresh value; a call that finds an entry the policy accepts invokes
  nothing, writes nothing, leaves the backend as it is and returns the stored value.
  (The wrapped operation returns \<open>v\<close> and the backend accepts the write.)
\<close>

theorem call_miss_and_hit:
  "(store_contains pk st (key_from_args w args) = Inr False \<and>
    w_function w (w_instance w) args = Inr v \<and>
    store_setitem pk st (key_from_args w args)
      \<lparr>e_value = v, e_mtime = PDatetime stamp, e_expires = PNone\<rparr> = Inr st'
    \<longrightarrow> call pk env stamp w st args =
          (Inr v, st',
           [Invoke args,
            Write (key_from_args w args)
              \<lparr>e_value = v, e_mtime = PDatetime stamp, e_expires = PNone\<rparr>])) \<and>
   (store_getitem pk st (key_from_args w args) = Inr entry \<and>
    is_entry_valid env w entry args = Inr False \<and>
    w_function w (w_instance w) args = Inr v \<and>
    store_setitem pk st (key_from_args w args)
      \<lparr>e_value = v, e_mtime = PDatetime stamp, e_expires = PNone\<rparr> = Inr st'
    \<longrightarrow> call pk env stamp w st args =
          (Inr v, st',
           [Invoke args,
            Write (key_from_args w args)
              \<lparr>e_value = v, e_mtime = PDatetime stamp, e_expires = PNone\<rparr>])) \<and>
   (store_getitem pk st (key_from_args w args) = Inr entry \<and>
    is_entry_valid env w entry args = Inr True
    \<longrightarrow> call pk env stamp w st args = (Inr (e_value entry), st, []))"
  by (simp add: call_def recompute_def contains_of_getitem)

theorem call_miss_and_hit_witness:
  "call identity_pickle (sample_env ''session'') (mk_datetime 2020 1 12 12 0 1) wrapper_f
      (Sqlite3Store []) [3] =
     (Inr 3,
      Sqlite3Store [(''f(3,)'',
        \<lparr>e_value = 3, e_mtime = PDatetime (mk_datetime 2020 1 12 12 0 1), e_expires = PNone\<rparr>)],
      [Invoke [3],
       Write ''f(3,)''
        \<lparr>e_value = 3, e_mtime = PDatetime (mk_datetime 2020 1 12 12 0 1), e_expires = PNone\<rparr>]) \<and>
   call identity_pickle (sample_env ''session'') (mk_datetime 2020 1 12 12 0 1) wrapper_f
      (Sqlite3Store [(''f(3,)'', sample_entry (PDatetime (mk_datetime 2020 1 1 9 0 0)))]) [3] =
     (Inr 3,
      Sqlite3Store [(''f(3,)'',
        \<lparr>e_value = 3, e_mtime = PDatetime (mk_datetime 2020 1 12 12 0 1), e_expires = PNone\<rparr>)],
      [Invoke [3],
       Write ''f(3,)''
        \<lparr>e_value = 3, e_mtime = PDatetime (mk_datetime 2020 1 12 12 0 1), e_expires = PNone\<rparr>]) \<and>
   call identity_pickle (sample_env ''session'') (mk_datetime 2020 1 12 12 0 1) wrapper_f
      (Sqlite3Store [(''f(3,)'', sample_entry (PDatetime (mk_datetime 2020 1 3 9 0 0)))]) [3] =
     (Inr 7, Sqlite3Store [(''f(3,)'', sample_entry (PDatetime (mk_datetime 2020 1 3 9 0 0)))], [])"
proof -
  let ?pk = identity_pickle and ?env = "sample_env ''session''"
    and ?stamp = "mk_datetime 2020 1 12 12 0 1"
  let ?new = "\<lparr>e_value = 3::int, e_mtime = PDatetime ?stamp, e_expires = PNone\<rparr>"
  let ?old = "sample_entry (PDatetime (mk_datetime 2020 1 1 9 0 0))"
  let ?fresh = "sample_entry (PDatetime (mk_datetime 2020 1 3 9 0 0))"
  have key: "key_from_args wrapper_f [3] = ''f(3,)''"
    by code_simp
  have fn: "w_function wrapper_f (w_instance wrapper_f) [3] = Inr 3"
    by (simp add: wrapper_f_def)
  have absent: "store_contains ?pk (Sqlite3Store []) ''f(3,)'' = Inr False"
    by (simp add: store_contains_def)
  have set1: "store_setitem ?pk (Sqlite3Store []) ''f(3,)'' ?new =
              Inr (Sqlite3Store [(''f(3,)'', ?new)])"
    by (simp add: identity_pickle_def)
  have get2: "store_getitem ?pk (Sqlite3Store [(''f(3,)'', ?old)]) ''f(3,)'' = Inr ?old"
    by (simp add: identity_pickle_def)
  have stale: "is_entry_valid ?env wrapper_f ?old [3] = Inr False"
    by (simp add: eval_defs)
  have set2: "store_setitem ?pk (Sqlite3Store [(''f(3,)'', ?old)]) ''f(3,)'' ?new =
              Inr (Sqlite3Store [(''f(3,)'', ?new)])"
    by (simp add: identity_pickle_def)
  have get3: "store_getitem ?pk (Sqlite3Store [(''f(3,)'', ?fresh)]) ''f(3,)'' = Inr ?fresh"
    by (simp add: identity_pickle_def)
  have valid: "is_entry_valid ?env wrapper_f ?fresh [3] = Inr True"
    by (simp add: eval_defs)
  have v7: "e_value ?fresh = 7"
    by (simp add: sample_entry_def)
  from call_miss_and_hit [of ?pk "Sqlite3Store []" wrapper_f "[3]" 3 ?stamp
      "Sqlite3Store [(''f(3,)'', ?new)]" ?env]
    key fn absent set1
  have a: "call ?pk ?env ?stamp wrapper_f (Sqlite3Store []) [3] =
     (Inr 3, Sqlite3Store [(''f(3,)'', ?new)], [Invoke [3], Write ''f(3,)'' ?new])"
    by simp
  from call_miss_and_hit [of ?pk "Sqlite3Store [(''f(3,)'', ?old)]" wrapper_f "[3]" 3 ?stamp
      "Sqlite3Store [(''f(3,)'', ?new)]" ?env ?old]
    key fn get2 stale set2
  have b: "call ?pk ?env ?stamp wrapper_f (Sqlite3Store [(''f(3,)'', ?old)]) [3] =
     (Inr 3, Sqlite3Store [(''f(3,)'', ?new)], [Invoke [3], Write ''f(3,)'' ?new])"
    by simp
  from call_miss_and_hit [of ?pk "Sqlite3Store [(''f(3,)'', ?fresh)]" wrapper_f "[3]" _ ?stamp
      _ ?env ?fresh]
    key get3 valid v7
  have c: "call ?pk ?env ?stamp wrapper_f (Sqlite3Store [(''f(3,)'', ?fresh)]) [3] =
     (Inr 7, Sqlite3Store [(''f(3,)'', ?fresh)], [])"
    by simp
  from a b c show ?thesis by simp
qed

text \<open>
  C10. When the wrapped operation raises during a miss (no entry under the key, or an
  entry the policy rejects), the exception is the result of the call, the operation
  was invoked once, nothing was written and the backend is the one before the call.
\<close>

theorem call_raise_keeps_store:
  assumes "w_function w (w_instance w) args = Inl e"
    and "store_contains pk st (key_from_args w args) = Inr False \<or>
         (\<exists>entry. store_getitem pk st (key_from_args w args) = Inr entry \<and>
                  is_entry_valid env w entry args = Inr False)"
  shows "call pk env stamp w st args = (Inl e, st, [Invoke args])"
  using assms by (auto simp add: call_def recompute_def contains_of_getitem)

theorem call_raise_keeps_store_witness:
  "call identity_pickle (sample_env ''session'') (mk_datetime 2020 1 12 12 0 1) wrapper_failing
      (Sqlite3Store [(''g(1,)'', sample_entry PNone)]) [3] =
     (Inl (Raised ''IOError''), Sqlite3Store [(''g(1,)'', sample_entry PNone)], [Invoke [3]])"
proof -
  have key: "key_from_args wrapper_failing [3] = ''f(3,)''"
    by code_simp
  have raises: "w_function wrapper_failing (w_instance wrapper_failing) [3] = Inl (Raised ''IOError'')"
    by (simp add: wrapper_failing_def)
  have "store_contains identity_pickle (Sqlite3Store [(''g(1,)'', sample_entry PNone)]) ''f(3,)'' =
        Inr False"
    by (simp add: store_contains_def)
  with key have miss:
    "store_contains identity_pickle (Sqlite3Store [(''g(1,)'', sample_entry PNone)])
       (key_from_args wrapper_failing [3]) = Inr False \<or>
     (\<exists>entry. store_getitem identity_pickle (Sqlite3Store [(''g(1,)'', sample_entry PNone)])
                 (key_from_args wrapper_failing [3]) = Inr entry \<and>
              is_entry_valid (sample_env ''session'') wrapper_failing entry [3] = Inr False)"
    by simp
  show ?thesis by (rule call_raise_keeps_store [OF raises miss])
qed

section \<open>Bulk invalidation\<close>




section \<open>Clearing the cache directory\<close>

text \<open>
  C8. When the real path of the configured cache path differs from that of the default
  directory, \<^verbatim>\<open>clear_cache\<close> raises its exception and the directory keeps every
  entry; the directory changes only when the two real paths are equal.
\<close>

theorem clear_cache_guard:
  "(realpath path \<noteq> realpath kegg_dir \<longrightarrow>
      clear_cache realpath path kegg_dir entries = (Inl (Exception path), entries)) \<and>
   (snd (clear_cache realpath path kegg_dir entries) \<noteq> entries \<longrightarrow>
      realpath path = realpath kegg_dir)"
  by (auto simp add: clear_cache_def)

theorem clear_cache_guard_witness:
  "clear_cache (\<lambda>p. p) ''/tmp/elsewhere'' ''/home/user/kegg'' sample_listing =
     (Inl (Exception ''/tmp/elsewhere''), sample_listing) \<and>
   snd (clear_cache (\<lambda>p. p) ''/home/user/kegg'' ''/home/user/kegg'' sample_listing) =
     [(''notes.txt'', False)] \<and>
   snd (clear_cache (\<lambda>p. p) ''/home/user/kegg'' ''/home/user/kegg'' sample_listing) \<noteq> sample_listing"
proof -
  have differ: "(\<lambda>p. p) ''/tmp/elsewhere'' \<noteq> (\<lambda>p::string. p) ''/home/user/kegg''"
    by simp
  have cleared: "snd (clear_cache (\<lambda>p. p) ''/home/user/kegg'' ''/home/user/kegg'' sample_listing) =
                 [(''notes.txt'', False)]"
    by (simp add: clear_cache_def remove_glob_def glob_star_def endswith_def sample_listing_def)
  from clear_cache_guard [of "\<lambda>p. p" "''/tmp/elsewhere''" "''/home/user/kegg''" sample_listing]
    differ
  have refused: "clear_cache (\<lambda>p. p) ''/tmp/elsewhere'' ''/home/user/kegg'' sample_listing =
     (Inl (Exception ''/tmp/elsewhere''), sample_listing)"
    by simp
  from clear_cache_guard [of "\<lambda>p. p" "''/home/user/kegg''" "''/home/user/kegg''" sample_listing]
  have "snd (clear_cache (\<lambda>p. p) ''/home/user/kegg'' ''/home/user/kegg'' sample_listing) \<noteq>
          sample_listing \<longrightarrow> True"
    by simp
  with refused cleared show ?thesis
    by (simp add: sample_listing_def)
qed

end
